theory Spec2Isabelle
  imports Main "HOL-Library.Sublist"
begin

section \<open>Data model\<close>

text \<open>
  The knowledge base is a JSON document read with \<^verbatim>\<open>json.load\<close>. Every field the
  scripts read is read with \<^verbatim>\<open>dict.get\<close>, so every field may be absent: an absent field
  is \<open>None\<close> here, as it is in Python. Strings are lists of characters, one \<open>char\<close> per
  character of the Python string.
\<close>

text \<open>One entry of \<^verbatim>\<open>external_references\<close> (a \<^verbatim>\<open>Dict[str, str]\<close>).\<close>

record reference =
  source_name :: "string option"
  external_id :: "string option"
  url :: "string option"

text \<open>
  The value of \<^verbatim>\<open>x_mitre_platforms\<close> and \<^verbatim>\<open>x_mitre_permissions_required\<close>:
  \<^verbatim>\<open>normalize_list\<close> distinguishes a list from any other value.
\<close>

datatype listval = VList "string list" | VStr string

record kobj =
  obj_type :: "string option"
  obj_id :: "string option"
  obj_name :: "string option"
  description :: "string option"
  revoked :: "bool option"
  x_mitre_deprecated :: "bool option"
  x_mitre_platforms :: "listval option"
  x_mitre_detection :: "string option"
  x_mitre_permissions_required :: "listval option"
  external_references :: "reference list option"

text \<open>The parsed file: \<^verbatim>\<open>data.get("objects", [])\<close>.\<close>

record corpus =
  objects :: "kobj list option"

datatype py_exc =
    FileNotFoundError string
  | Exception string
  | SystemExit nat

section \<open>Python primitives used by the scripts\<close>

definition nl :: string where
  "nl = [CHR 0x0A]"

definition cr :: string where
  "cr = [CHR 0x0D]"

text \<open>\<^verbatim>\<open>sep.join(parts)\<close>.\<close>

fun join :: "string \<Rightarrow> string list \<Rightarrow> string" where
  "join sep [] = []"
| "join sep [x] = x"
| "join sep (x # y # ys) = x @ sep @ join sep (y # ys)"

text \<open>\<^verbatim>\<open>str(v)\<close> of a value that is a string or \<^verbatim>\<open>None\<close>, as an f-string renders it.\<close>

definition py_str :: "string option \<Rightarrow> string" where
  "py_str v = (case v of None \<Rightarrow> ''None'' | Some s \<Rightarrow> s)"

text \<open>\<^verbatim>\<open>str(b)\<close> of a boolean.\<close>

definition str_bool :: "bool \<Rightarrow> string" where
  "str_bool b = (if b then ''True'' else ''False'')"

definition digit_char :: "nat \<Rightarrow> char" where
  "digit_char d = char_of (48 + d)"

text \<open>\<^verbatim>\<open>str(n)\<close> of a non-negative integer: its decimal digits.\<close>

function str_nat :: "nat \<Rightarrow> string" where
  "str_nat n = (if n < 10 then [digit_char n] else str_nat (n div 10) @ [digit_char (n mod 10)])"
  by pat_completeness auto
termination
  by (relation "measure (\<lambda>n. n)") auto

text \<open>Truthiness of an optional flag: \<^verbatim>\<open>obj.get("revoked")\<close> in a condition.\<close>

definition truthy :: "bool option \<Rightarrow> bool" where
  "truthy v = (case v of None \<Rightarrow> False | Some b \<Rightarrow> b)"

section \<open>process_mitre.py\<close>

definition MITRE_FILE_PATH :: string where
  "MITRE_FILE_PATH = ''datasets/raw/mitre/enterprise-attack.json''"

definition ALLOWED_TYPES :: "string list" where
  "ALLOWED_TYPES =
     [''attack-pattern'', ''malware'', ''tool'', ''intrusion-set'', ''course-of-action'',
      ''campaign'']"

text \<open>\<^verbatim>\<open>obj.get("type") not in ALLOWED_TYPES\<close> is false exactly for these objects.\<close>

definition type_allowed :: "kobj \<Rightarrow> bool" where
  "type_allowed obj =
     (case obj_type obj of None \<Rightarrow> False | Some t \<Rightarrow> t \<in> set ALLOWED_TYPES)"

definition lifecycle_flagged :: "kobj \<Rightarrow> bool" where
  "lifecycle_flagged obj = (truthy (revoked obj) \<or> truthy (x_mitre_deprecated obj))"

text \<open>The loop of \<^verbatim>\<open>load_mitre_data\<close>, with \<^verbatim>\<open>processed_objects\<close> as accumulator.\<close>

fun filter_loop :: "kobj list \<Rightarrow> kobj list \<Rightarrow> kobj list" where
  "filter_loop [] processed_objects = processed_objects"
| "filter_loop (obj # rest) processed_objects =
     (if \<not> type_allowed obj then filter_loop rest processed_objects
      else if lifecycle_flagged obj then filter_loop rest processed_objects
      else filter_loop rest (processed_objects @ [obj]))"

definition corpus_objects :: "corpus \<Rightarrow> kobj list" where
  "corpus_objects data = (case objects data of None \<Rightarrow> [] | Some os \<Rightarrow> os)"

text \<open>
  \<^verbatim>\<open>load_mitre_data\<close>: the file system is a map from paths to parsed documents; a path
  outside its domain does not exist.
\<close>

definition load_mitre_data :: "(string \<rightharpoonup> corpus) \<Rightarrow> string \<Rightarrow> py_exc + kobj list" where
  "load_mitre_data fs file_path =
     (case fs file_path of
        None \<Rightarrow> Inl (FileNotFoundError (''MITRE file not found at: '' @ file_path))
      | Some data \<Rightarrow> Inr (filter_loop (corpus_objects data) []))"

fun extract_mitre_id :: "reference list \<Rightarrow> string" where
  "extract_mitre_id [] = ''UNKNOWN''"
| "extract_mitre_id (ref # rest) =
     (if source_name ref = Some ''mitre-attack''
      then (case external_id ref of None \<Rightarrow> ''UNKNOWN'' | Some e \<Rightarrow> e)
      else extract_mitre_id rest)"

definition normalize_list :: "listval option \<Rightarrow> string" where
  "normalize_list item =
     (case item of
        Some (VList xs) \<Rightarrow> join '', '' xs
      | Some (VStr s) \<Rightarrow> s
      | None \<Rightarrow> [])"

definition get_name :: "kobj \<Rightarrow> string" where
  "get_name obj = (case obj_name obj of None \<Rightarrow> ''Unknown'' | Some n \<Rightarrow> n)"

definition get_str :: "string option \<Rightarrow> string" where
  "get_str v = (case v of None \<Rightarrow> [] | Some s \<Rightarrow> s)"

definition get_refs :: "kobj \<Rightarrow> reference list" where
  "get_refs obj = (case external_references obj of None \<Rightarrow> [] | Some rs \<Rightarrow> rs)"

definition doc_header :: "kobj \<Rightarrow> string option \<Rightarrow> string" where
  "doc_header obj mitre_id =
     py_str mitre_id @ '': '' @ get_name obj @ '' ('' @ py_str (obj_type obj) @ '')''"

definition generate_document_text :: "kobj \<Rightarrow> string option \<Rightarrow> string" where
  "generate_document_text obj mitre_id =
     (let name = get_name obj;
          description = get_str (description obj);
          platforms = normalize_list (x_mitre_platforms obj);
          detection = get_str (x_mitre_detection obj);
          permissions = normalize_list (x_mitre_permissions_required obj);
          header = doc_header obj mitre_id;
          text_parts = [header, replicate (length header) CHR ''='',
                        ''Description: '' @ description];
          text_parts = (if platforms \<noteq> [] then text_parts @ [''Platforms: '' @ platforms]
                        else text_parts);
          text_parts = (if permissions \<noteq> []
                        then text_parts @ [''Permissions Required: '' @ permissions]
                        else text_parts);
          text_parts = (if detection \<noteq> [] then text_parts @ [''Detection: '' @ detection]
                        else text_parts)
      in join (nl @ nl) text_parts)"

text \<open>
  Lines 117 to 119 of \<^verbatim>\<open>main\<close>: the identifier an object is filed under. It is
  \<^verbatim>\<open>obj.get("id")\<close>, which is \<^verbatim>\<open>None\<close> for an object without an id, when the
  extraction yields the sentinel.
\<close>

definition domain_id :: "kobj \<Rightarrow> string option" where
  "domain_id obj =
     (let mitre_id = extract_mitre_id (get_refs obj)
      in if mitre_id = ''UNKNOWN'' then obj_id obj else Some mitre_id)"


record metadata =
  md_mitre_id :: "string option"
  md_name :: string
  md_type :: "string option"
  md_url :: string
  md_platforms :: string
  md_deprecated :: string

text \<open>
  The generator expression of line 129: the \<^verbatim>\<open>url\<close> of the first reference of the
  authority, the empty string when it has none or no reference matches.
\<close>

fun first_mitre_url :: "reference list \<Rightarrow> string" where
  "first_mitre_url [] = []"
| "first_mitre_url (ref # rest) =
     (if source_name ref = Some ''mitre-attack'' then get_str (url ref)
      else first_mitre_url rest)"

definition build_metadata :: "kobj \<Rightarrow> string option \<Rightarrow> metadata" where
  "build_metadata obj mitre_id =
     \<lparr> md_mitre_id = mitre_id,
       md_name = get_name obj,
       md_type = obj_type obj,
       md_url = first_mitre_url (get_refs obj),
       md_platforms = normalize_list (x_mitre_platforms obj),
       md_deprecated =
         str_bool (case x_mitre_deprecated obj of None \<Rightarrow> False | Some b \<Rightarrow> b) \<rparr>"

text \<open>
  The embedding service is outside the program. Its answer to the call number \<open>k\<close>
  (counted from 0) with a prompt is either the exception it raises (\<open>Inl\<close>, with the
  message) or the vector; the vector type is left open.
\<close>

type_synonym 'v embedder = "nat \<Rightarrow> string \<Rightarrow> string + 'v"

text \<open>\<^verbatim>\<open>get_embedding\<close>: what it prints and what it returns.\<close>

definition get_embedding :: "'v embedder \<Rightarrow> nat \<Rightarrow> string \<Rightarrow> string list \<times> 'v option" where
  "get_embedding svc k text =
     (case svc k text of
        Inr v \<Rightarrow> ([], Some v)
      | Inl e \<Rightarrow> ([''Error generating embedding with Ollama: '' @ e @ nl], None))"

text \<open>
  The variables of \<^verbatim>\<open>main\<close> that its loop updates, the text written to standard output
  (one element per \<^verbatim>\<open>print\<close>, with its line end), and the number of calls made to the
  embedding service.
\<close>

record 'v acc =
  documents :: "string list"
  metadatas :: "metadata list"
  ids :: "string option list"
  embeddings :: "'v list"
  count :: nat
  stdout :: "string list"
  embed_calls :: nat

definition init_acc :: "'v acc" where
  "init_acc =
     \<lparr> documents = [], metadatas = [], ids = [], embeddings = [], count = 0, stdout = [],
       embed_calls = 0 \<rparr>"

definition skip_msg :: "string option \<Rightarrow> string" where
  "skip_msg mitre_id = nl @ ''Skipping '' @ py_str mitre_id @ '' due to embedding failure.'' @ nl"

definition progress_msg :: "nat \<Rightarrow> nat \<Rightarrow> string" where
  "progress_msg c total_n = ''Processing '' @ str_nat c @ ''/'' @ str_nat total_n @ ''...'' @ cr"

text \<open>Line 158: the key used when the identifier is already taken.\<close>

definition composite_key :: "kobj \<Rightarrow> string option" where
  "composite_key obj = Some (py_str (domain_id obj) @ ''_'' @ py_str (obj_id obj))"

text \<open>Lines 155 to 158.\<close>

definition uniq_id :: "string option list \<Rightarrow> kobj \<Rightarrow> string option" where
  "uniq_id assigned obj =
     (if domain_id obj \<in> set assigned then composite_key obj else domain_id obj)"

text \<open>The body of the loop of \<^verbatim>\<open>main\<close> (lines 116 to 161).\<close>

definition process_object :: "'v embedder \<Rightarrow> nat \<Rightarrow> kobj \<Rightarrow> 'v acc \<Rightarrow> 'v acc" where
  "process_object svc total_n obj s =
     (let c = count s + 1;
          mitre_id = domain_id obj;
          metadata = build_metadata obj mitre_id;
          text_content = generate_document_text obj mitre_id;
          out1 = (if c mod 10 = 0 then [progress_msg c total_n] else []);
          (out2, emb) = get_embedding svc (embed_calls s) text_content;
          s1 = s\<lparr> count := c, embed_calls := embed_calls s + 1 \<rparr>
      in case emb of
           None \<Rightarrow> s1\<lparr> stdout := stdout s @ out1 @ out2 @ [skip_msg mitre_id] \<rparr>
         | Some v \<Rightarrow>
             s1\<lparr> documents := documents s @ [text_content],
                 metadatas := metadatas s @ [metadata],
                 ids := ids s @ [uniq_id (ids s) obj],
                 embeddings := embeddings s @ [v],
                 stdout := stdout s @ out1 @ out2 \<rparr>)"

fun process_loop :: "'v embedder \<Rightarrow> nat \<Rightarrow> kobj list \<Rightarrow> 'v acc \<Rightarrow> 'v acc" where
  "process_loop svc total_n [] s = s"
| "process_loop svc total_n (obj # rest) s =
     process_loop svc total_n rest (process_object svc total_n obj s)"

subsection \<open>Batch upsert\<close>

definition CHROMA_PATH :: string where
  "CHROMA_PATH = ''vectorstore/chroma_db''"

definition batch_size :: nat where
  "batch_size = 100"

text \<open>\<^verbatim>\<open>range(i, n, step)\<close> for a positive step.\<close>

function range_step :: "nat \<Rightarrow> nat \<Rightarrow> nat \<Rightarrow> nat list" where
  "range_step i n step =
     (if step = 0 then [] else if i < n then i # range_step (i + step) n step else [])"
  by pat_completeness auto
termination
  by (relation "measure (\<lambda>(i, n, step). n - i)") auto

text \<open>\<^verbatim>\<open>xs[i:e]\<close> for indices that are not negative.\<close>

definition slice :: "'a list \<Rightarrow> nat \<Rightarrow> nat \<Rightarrow> 'a list" where
  "slice xs i e = drop i (take e xs)"

record 'v upsert_call =
  up_documents :: "string list"
  up_embeddings :: "'v list"
  up_metadatas :: "metadata list"
  up_ids :: "string option list"

definition upsert_msg :: "nat \<Rightarrow> nat \<Rightarrow> string" where
  "upsert_msg i e = ''Upserting batch '' @ str_nat i @ '' to '' @ str_nat e @ ''...'' @ nl"

definition batch_call :: "'v acc \<Rightarrow> nat \<Rightarrow> 'v upsert_call" where
  "batch_call s i =
     (let e = min (i + batch_size) (length (documents s))
      in \<lparr> up_documents = slice (documents s) i e,
           up_embeddings = slice (embeddings s) i e,
           up_metadatas = slice (metadatas s) i e,
           up_ids = slice (ids s) i e \<rparr>)"

text \<open>
  The upsert loop over the start indices. The store answers the call number \<open>k\<close> with
  \<open>None\<close> or with the message of the exception it raises, which ends the loop: the
  calls made before it stay committed.
\<close>

fun upsert_loop ::
  "(nat \<Rightarrow> string option) \<Rightarrow> 'v acc \<Rightarrow> nat list \<Rightarrow> nat \<Rightarrow>
     string list \<times> 'v upsert_call list \<times> py_exc option" where
  "upsert_loop store s [] k = ([], [], None)"
| "upsert_loop store s (i # rest) k =
     (let e = min (i + batch_size) (length (documents s));
          msg = upsert_msg i e
      in case store k of
           Some err \<Rightarrow> ([msg], [], Some (Exception err))
         | None \<Rightarrow>
             (case upsert_loop store s rest (k + 1) of
                (out, calls, r) \<Rightarrow> (msg # out, batch_call s i # calls, r)))"

record 'v ingest_env =
  files :: "string \<rightharpoonup> corpus"
  ollama_embeddings :: "'v embedder"
  chroma_open :: "string option"
  chroma_upsert :: "nat \<Rightarrow> string option"

record 'v run =
  run_stdout :: "string list"
  run_upserts :: "'v upsert_call list"
  run_embed_calls :: nat
  run_exc :: "py_exc option"

text \<open>
  \<^verbatim>\<open>main\<close> of the ingestion script. \<open>chroma_open\<close> is the exception, if any, raised by
  \<^verbatim>\<open>PersistentClient\<close> or \<^verbatim>\<open>get_or_create_collection\<close>. No exception is caught here.
\<close>

definition main :: "'v ingest_env \<Rightarrow> 'v run" where
  "main env =
     (let out0 = [''Loading data from '' @ MITRE_FILE_PATH @ ''...'' @ nl]
      in case load_mitre_data (files env) MITRE_FILE_PATH of
           Inl exc \<Rightarrow>
             \<lparr> run_stdout = out0, run_upserts = [], run_embed_calls = 0, run_exc = Some exc \<rparr>
         | Inr objs \<Rightarrow>
             (let out1 = [''Found '' @ str_nat (length objs) @ '' relevant objects.'' @ nl,
                          ''Processing objects and generating embeddings...'' @ nl];
                  s = process_loop (ollama_embeddings env) (length objs) objs init_acc;
                  out2 = [nl @ ''Generated '' @ str_nat (length (embeddings s)) @
                            '' embeddings.'' @ nl,
                          ''Initializing ChromaDB at '' @ CHROMA_PATH @ ''...'' @ nl];
                  out = out0 @ out1 @ stdout s @ out2
              in case chroma_open env of
                   Some err \<Rightarrow>
                     \<lparr> run_stdout = out, run_upserts = [], run_embed_calls = embed_calls s,
                       run_exc = Some (Exception err) \<rparr>
                 | None \<Rightarrow>
                     (case upsert_loop (chroma_upsert env) s
                             (range_step 0 (length (documents s)) batch_size) 0 of
                        (out4, calls, r) \<Rightarrow>
                          \<lparr> run_stdout = out @ [''Upserting to ChromaDB...'' @ nl] @ out4 @
                              (if r = None then [''Done!'' @ nl] else []),
                            run_upserts = calls, run_embed_calls = embed_calls s,
                            run_exc = r \<rparr>)))"

text \<open>
  The exit status of the interpreter: 0 when the script runs to its end, the argument of
  \<^verbatim>\<open>sys.exit\<close>, and 1 for an exception that nothing catches.
\<close>

definition exit_code :: "py_exc option \<Rightarrow> nat" where
  "exit_code r = (case r of None \<Rightarrow> 0 | Some (SystemExit n) \<Rightarrow> n | Some _ \<Rightarrow> 1)"


section \<open>audit_mitre.py\<close>

text \<open>The symbols the scripts print, as the bytes of their UTF-8 encoding.\<close>

definition cross_mark :: string where
  "cross_mark = [CHR 0xE2, CHR 0x9D, CHR 0x8C]"

definition check_mark :: string where
  "check_mark = [CHR 0xE2, CHR 0x9C, CHR 0x85]"

definition party_popper :: string where
  "party_popper = [CHR 0xF0, CHR 0x9F, CHR 0x8E, CHR 0x89]"

definition warning_sign :: string where
  "warning_sign = [CHR 0xE2, CHR 0x9A, CHR 0xA0, CHR 0xEF, CHR 0xB8, CHR 0x8F]"

definition COLLECTION_NAME :: string where
  "COLLECTION_NAME = ''mitre_attack''"

text \<open>
  The scan of \<^verbatim>\<open>audit_mitre.main\<close> (lines 36 to 46), with \<^verbatim>\<open>relevant_objects\<close>,
  \<^verbatim>\<open>skipped_types\<close> and \<^verbatim>\<open>skipped_revoked\<close> as accumulators.
\<close>

fun audit_loop :: "kobj list \<Rightarrow> kobj list \<times> nat \<times> nat \<Rightarrow> kobj list \<times> nat \<times> nat" where
  "audit_loop [] acc = acc"
| "audit_loop (obj # rest) (relevant_objects, skipped_types, skipped_revoked) =
     (if \<not> type_allowed obj
      then audit_loop rest (relevant_objects, skipped_types + 1, skipped_revoked)
      else if lifecycle_flagged obj
      then audit_loop rest (relevant_objects, skipped_types, skipped_revoked + 1)
      else audit_loop rest (relevant_objects @ [obj], skipped_types, skipped_revoked))"

definition audit_scan :: "kobj list \<Rightarrow> kobj list \<times> nat \<times> nat" where
  "audit_scan all_objects = audit_loop all_objects ([], 0, 0)"

text \<open>
  What the store does in the audit: the exception, if any, raised by \<^verbatim>\<open>PersistentClient\<close>,
  the one raised by \<^verbatim>\<open>get_collection\<close> (the collection is missing), and the answer of
  \<^verbatim>\<open>collection.count()\<close>.
\<close>

record audit_env =
  au_files :: "string \<rightharpoonup> corpus"
  au_client :: "string option"
  au_collection :: "string option"
  au_count :: "string + nat"

record audit_run =
  au_stdout :: "string list"
  au_exc :: "py_exc option"

definition audit_diagnosis :: "nat \<Rightarrow> nat \<Rightarrow> string list" where
  "audit_diagnosis expected db_count =
     (if expected = db_count
      then [nl @ party_popper @ '' SUCCESS: Database count matches expected count exactly.'' @ nl]
      else if expected > db_count
      then [nl @ warning_sign @ ''  MISSING: '' @ str_nat (expected - db_count) @
              '' objects are missing from the database.'' @ nl,
            ''Possible reasons:'' @ nl,
            ''1. Embedding API/Model failures (check process output).'' @ nl,
            ''2. Script was interrupted.'' @ nl]
      else [nl @ warning_sign @ ''  EXTRA: Database has '' @ str_nat (db_count - expected) @
              '' more items than expected.'' @ nl,
            ''Possible reasons:'' @ nl,
            ''1. Duplicates (script logic adds suffix on ID collision).'' @ nl,
            ''2. Old data was not cleared before run.'' @ nl])"

definition audit_store :: "audit_env \<Rightarrow> nat \<Rightarrow> string list" where
  "audit_store env expected =
     (case au_client env of
        Some e \<Rightarrow> [cross_mark @ '' Error connecting to ChromaDB: '' @ e @ nl]
      | None \<Rightarrow>
          (case au_collection env of
             Some e \<Rightarrow>
               [cross_mark @ '' Collection '' @ [CHR 0x27] @ COLLECTION_NAME @ [CHR 0x27] @
                  '' does not exist in ChromaDB.'' @ nl]
           | None \<Rightarrow>
               (case au_count env of
                  Inl e \<Rightarrow> [cross_mark @ '' Error connecting to ChromaDB: '' @ e @ nl]
                | Inr db_count \<Rightarrow>
                    [check_mark @ '' Actual Documents in ChromaDB: '' @ str_nat db_count @ nl] @
                    audit_diagnosis expected db_count)))"

text \<open>
  \<^verbatim>\<open>main\<close> of the audit script. Every path ends with \<^verbatim>\<open>return\<close> or runs to the end of
  the function: no exception leaves it.
\<close>

definition audit_main :: "audit_env \<Rightarrow> audit_run" where
  "audit_main env =
     (let out0 = [''--- MITRE Processing Audit ---'' @ nl,
                  ''Reading source file: '' @ MITRE_FILE_PATH @ nl]
      in case au_files env MITRE_FILE_PATH of
           None \<Rightarrow>
             \<lparr> au_stdout = out0 @ [cross_mark @ '' Source file not found!'' @ nl],
               au_exc = None \<rparr>
         | Some data \<Rightarrow>
             (case audit_scan (corpus_objects data) of
                (relevant_objects, skipped_types, skipped_revoked) \<Rightarrow>
                  \<lparr> au_stdout = out0 @
                      [''Total objects in JSON: '' @
                         str_nat (length (corpus_objects data)) @ nl,
                       ''Skipped (irrelevant type): '' @ str_nat skipped_types @ nl,
                       ''Skipped (revoked/deprecated): '' @ str_nat skipped_revoked @ nl,
                       check_mark @ '' Expected Embeddings Count: '' @
                         str_nat (length relevant_objects) @ nl,
                       nl @ ''Connecting to ChromaDB at: '' @ CHROMA_PATH @ nl] @
                      audit_store env (length relevant_objects),
                    au_exc = None \<rparr>))"

section \<open>rag_chat.py\<close>

record chroma_meta =
  m_mitre_id :: "string option"
  m_name :: "string option"

text \<open>The answer of \<^verbatim>\<open>collection.query\<close>: one list of documents and one of metadata per query vector.\<close>

record query_result =
  res_documents :: "string list list"
  res_metadatas :: "chroma_meta list list"

definition context_separator :: string where
  "context_separator = nl @ nl @ ''---'' @ nl @ nl"

definition format_entry :: "string \<Rightarrow> chroma_meta \<Rightarrow> string" where
  "format_entry doc meta =
     ''Source: '' @ py_str (m_mitre_id meta) @ '' ('' @ py_str (m_name meta) @ '')'' @ nl @ doc"

text \<open>
  The loop of lines 26 to 29 over the documents of the first query, reading the metadata at
  the same index: an index beyond the metadata list raises \<^verbatim>\<open>IndexError\<close>.
\<close>

fun format_loop :: "string list \<Rightarrow> chroma_meta list \<Rightarrow> string + string list" where
  "format_loop [] metas = Inr []"
| "format_loop (doc # docs) [] = Inl ''list index out of range''"
| "format_loop (doc # docs) (meta # metas) =
     (case format_loop docs metas of
        Inl e \<Rightarrow> Inl e
      | Inr parts \<Rightarrow> Inr (format_entry doc meta # parts))"

definition format_results :: "query_result \<Rightarrow> string + string list" where
  "format_results results =
     (case res_documents results of
        [] \<Rightarrow> Inr []
      | docs # _ \<Rightarrow>
          format_loop docs (case res_metadatas results of [] \<Rightarrow> [] | metas # _ \<Rightarrow> metas))"

text \<open>
  \<^verbatim>\<open>get_context\<close>: the embedding service and the store answer with an exception (\<open>Inl\<close>)
  or a value; every exception is caught, printed, and turned into the empty string.
\<close>

definition get_context ::
  "(string \<Rightarrow> string + 'v) \<Rightarrow> ('v \<Rightarrow> nat \<Rightarrow> string + query_result) \<Rightarrow> string \<Rightarrow> nat \<Rightarrow>
     string list \<times> string" where
  "get_context emb_svc query_store query n_results =
     (case emb_svc query of
        Inl e \<Rightarrow> ([''Error retrieving context: '' @ e @ nl], [])
      | Inr query_embedding \<Rightarrow>
          (case query_store query_embedding n_results of
             Inl e \<Rightarrow> ([''Error retrieving context: '' @ e @ nl], [])
           | Inr results \<Rightarrow>
               (case format_results results of
                  Inl e \<Rightarrow> ([''Error retrieving context: '' @ e @ nl], [])
                | Inr context_parts \<Rightarrow> ([], join context_separator context_parts))))"

subsection \<open>The chat loop\<close>

definition hourglass :: string where
  "hourglass = [CHR 0xE2, CHR 0x8F, CHR 0xB3]"

definition robot_face :: string where
  "robot_face = [CHR 0xF0, CHR 0x9F, CHR 0xA4, CHR 0x96]"

definition magnifier :: string where
  "magnifier = [CHR 0xF0, CHR 0x9F, CHR 0x94, CHR 0x8D]"

definition thinking_face :: string where
  "thinking_face = [CHR 0xF0, CHR 0x9F, CHR 0xA4, CHR 0x94]"

definition LLM_MODEL :: string where
  "LLM_MODEL = ''DeepHat/DeepHat-V1-7B''"

text \<open>\<^verbatim>\<open>str.isspace\<close>, \<^verbatim>\<open>str.strip\<close> and \<^verbatim>\<open>str.lower\<close> on characters below 256.\<close>

definition is_space :: "char \<Rightarrow> bool" where
  "is_space c =
     (let n = (of_char c :: nat)
      in (9 \<le> n \<and> n \<le> 13) \<or> (28 \<le> n \<and> n \<le> 32) \<or> n = 133 \<or> n = 160)"

definition strip :: "string \<Rightarrow> string" where
  "strip s = rev (dropWhile is_space (rev (dropWhile is_space s)))"

definition lower_char :: "char \<Rightarrow> char" where
  "lower_char c =
     (let n = (of_char c :: nat)
      in if (65 \<le> n \<and> n \<le> 90) \<or> (192 \<le> n \<and> n \<le> 222 \<and> n \<noteq> 215) then char_of (n + 32)
         else c)"

definition lower :: "string \<Rightarrow> string" where
  "lower s = map lower_char s"

definition is_exit_keyword :: "string \<Rightarrow> bool" where
  "is_exit_keyword user_input = (lower user_input \<in> set [''exit'', ''quit''])"

definition system_prompt :: "string \<Rightarrow> string" where
  "system_prompt ctx =
     ''You are an expert AI SOC Analyst assistant. '' @
     ''Use the provided MITRE ATT&CK context to answer the user'' @ [CHR 0x27] @
     ''s question accurately. '' @
     ''If the answer is not in the context, use your general knowledge but mention that it'' @
     [CHR 0x27] @ ''s not in the specific retrieved data.'' @ nl @ nl @
     ''CONTEXT:'' @ nl @ ctx"

text \<open>
  The points at which the loop waits for the outside world: \<^verbatim>\<open>input\<close>, the call of
  \<^verbatim>\<open>get_context\<close>, and the call of \<^verbatim>\<open>ollama.chat\<close> with the stream it returns
  (\<open>None\<close> before the call has returned, the accumulated \<^verbatim>\<open>full_response\<close> after).
\<close>

datatype state =
    AwaitingInput
  | Retrieving string
  | Generating string string "string option"
  | Terminated

text \<open>What the outside world does at such a point.\<close>

datatype 'v event =
    Line string
  | KeyboardInterrupt
  | Raised string
  | Services "string \<Rightarrow> string + 'v" "'v \<Rightarrow> nat \<Rightarrow> string + query_result"
  | ChatStarted
  | Chunk string
  | StreamEnd

definition exiting :: "string list" where
  "exiting = [nl @ ''Exiting...'' @ nl]"

definition error_report :: "string \<Rightarrow> string list" where
  "error_report e = [nl @ cross_mark @ '' Error: '' @ e @ nl]"

text \<open>
  One step of the body of \<^verbatim>\<open>while True\<close> (lines 69 to 114): the next state and the text
  printed; \<open>None\<close> when the event cannot happen at that point.
\<close>

fun step :: "state \<Rightarrow> 'v event \<Rightarrow> (state \<times> string list) option" where
  "step AwaitingInput (Line l) =
     (let user_input = strip l
      in if is_exit_keyword user_input then Some (Terminated, [''User: ''])
         else if user_input = [] then Some (AwaitingInput, [''User: ''])
         else Some (Retrieving user_input,
                    [''User: '', magnifier @ '' Searching knowledge base...'' @ cr]))"
| "step AwaitingInput KeyboardInterrupt = Some (Terminated, ''User: '' # exiting)"
| "step AwaitingInput (Raised e) = Some (AwaitingInput, ''User: '' # error_report e)"
| "step (Retrieving user_input) (Services emb_svc query_store) =
     (case get_context emb_svc query_store user_input 3 of
        (out, ctx) \<Rightarrow>
          Some (Generating user_input (system_prompt ctx) None,
                out @ [replicate 27 CHR '' '' @ cr, thinking_face @ '' Thinking...'' @ cr]))"
| "step (Retrieving user_input) KeyboardInterrupt = Some (Terminated, exiting)"
| "step (Generating user_input prompt None) ChatStarted =
     Some (Generating user_input prompt (Some []), [''Assistant: ''])"
| "step (Generating user_input prompt (Some full_response)) (Chunk content) =
     Some (Generating user_input prompt (Some (full_response @ content)), [content])"
| "step (Generating user_input prompt (Some full_response)) StreamEnd =
     Some (AwaitingInput, [nl @ nl])"
| "step (Generating user_input prompt r) (Raised e) = Some (AwaitingInput, error_report e)"
| "step (Generating user_input prompt r) KeyboardInterrupt = Some (Terminated, exiting)"
| "step s ev = None"

fun run_events :: "state \<Rightarrow> 'v event list \<Rightarrow> (state \<times> string list) option" where
  "run_events s [] = Some (s, [])"
| "run_events s (ev # evs) =
     (case step s ev of
        None \<Rightarrow> None
      | Some (s', out) \<Rightarrow>
          (case run_events s' evs of
             None \<Rightarrow> None
           | Some (s'', out') \<Rightarrow> Some (s'', out @ out')))"

text \<open>
  The exceptions, if any, raised by \<^verbatim>\<open>PersistentClient\<close> and by \<^verbatim>\<open>get_collection\<close>
  (the collection is missing).
\<close>

record chat_env =
  ch_client :: "string option"
  ch_collection :: "string option"

record chat_run =
  ch_stdout :: "string list"
  ch_state :: "state option"
  ch_exc :: "py_exc option"

definition connect_error :: "chat_env \<Rightarrow> string option" where
  "connect_error env = (case ch_client env of Some e \<Rightarrow> Some e | None \<Rightarrow> ch_collection env)"

text \<open>
  \<^verbatim>\<open>chat_loop\<close> run against a finite script of events; \<open>None\<close> when the script does not
  fit the program. \<open>ch_state\<close> is the point the loop has reached at the end of the script.
\<close>

definition chat_loop :: "chat_env \<Rightarrow> 'v event list \<Rightarrow> chat_run option" where
  "chat_loop env evs =
     (let out0 = [hourglass @ '' Connecting to Vector Store...'' @ nl]
      in case connect_error env of
           Some e \<Rightarrow>
             Some \<lparr> ch_stdout = out0 @ [cross_mark @ '' Failed to connect to ChromaDB: '' @ e @ nl],
                    ch_state = None, ch_exc = Some (SystemExit 1) \<rparr>
         | None \<Rightarrow>
             (case run_events AwaitingInput evs of
                None \<Rightarrow> None
              | Some (s, out) \<Rightarrow>
                  Some \<lparr> ch_stdout = out0 @
                           [check_mark @ '' Connected to collection: '' @ COLLECTION_NAME @ nl,
                            robot_face @ '' AI-SOC Assistant ('' @ LLM_MODEL @ '') ready.'' @ nl,
                            ''Type '' @ [CHR 0x27] @ ''exit'' @ [CHR 0x27] @ '' or '' @
                              [CHR 0x27] @ ''quit'' @ [CHR 0x27] @ '' to stop.'' @ nl @ nl] @ out,
                         ch_state = Some s, ch_exc = None \<rparr>))"

text \<open>
  The exit status of the chat process once it has ended: by \<^verbatim>\<open>sys.exit\<close>, or by leaving
  the loop, after which the script runs to its end.
\<close>

definition chat_exit :: "chat_run \<Rightarrow> nat option" where
  "chat_exit r =
     (case ch_exc r of
        Some exc \<Rightarrow> Some (exit_code (Some exc))
      | None \<Rightarrow> (if ch_state r = Some Terminated then Some (exit_code None) else None))"


section \<open>Sample inputs\<close>

definition blank_obj :: kobj where
  "blank_obj =
     \<lparr> obj_type = None, obj_id = None, obj_name = None, description = None, revoked = None,
       x_mitre_deprecated = None, x_mitre_platforms = None, x_mitre_detection = None,
       x_mitre_permissions_required = None, external_references = None \<rparr>"

definition mitre_ref :: "string \<Rightarrow> reference" where
  "mitre_ref e = \<lparr> source_name = Some ''mitre-attack'', external_id = Some e, url = None \<rparr>"

definition technique_a :: kobj where
  "technique_a =
     blank_obj\<lparr> obj_type := Some ''attack-pattern'', obj_id := Some ''attack-pattern--a'',
                external_references := Some [mitre_ref ''T1055''] \<rparr>"

definition technique_b :: kobj where
  "technique_b =
     blank_obj\<lparr> obj_type := Some ''attack-pattern'', obj_id := Some ''attack-pattern--b'',
                external_references := Some [mitre_ref ''T1059''] \<rparr>"

definition revoked_malware :: kobj where
  "revoked_malware =
     blank_obj\<lparr> obj_type := Some ''malware'', obj_id := Some ''malware--c'',
                revoked := Some True \<rparr>"

definition example_corpus :: corpus where
  "example_corpus = \<lparr> objects = Some [technique_a, revoked_malware, technique_b] \<rparr>"

definition example_fs :: "string \<rightharpoonup> corpus" where
  "example_fs = [MITRE_FILE_PATH \<mapsto> example_corpus]"

text \<open>A tool whose first reference of the authority carries no \<^verbatim>\<open>external_id\<close>.\<close>

definition no_extid_obj :: kobj where
  "no_extid_obj =
     blank_obj\<lparr> obj_type := Some ''tool'', obj_id := Some ''tool--1'',
                external_references :=
                  Some [\<lparr> source_name = Some ''mitre-attack'', external_id = None,
                          url = Some ''https://attack.mitre.org'' \<rparr>,
                        mitre_ref ''S0001''] \<rparr>"

section \<open>Record filter\<close>

lemma filter_loop_eq:
  "filter_loop objs acc = acc @ filter (\<lambda>obj. type_allowed obj \<and> \<not> lifecycle_flagged obj) objs"
  by (induction objs arbitrary: acc) auto

lemma type_allowed_iff:
  "type_allowed obj \<longleftrightarrow>
     obj_type obj \<in> Some ` {''attack-pattern'', ''malware'', ''tool'', ''intrusion-set'',
                           ''course-of-action'', ''campaign''}"
  by (auto simp: type_allowed_def ALLOWED_TYPES_def split: option.splits)

lemma lifecycle_flagged_iff:
  "lifecycle_flagged obj \<longleftrightarrow> revoked obj = Some True \<or> x_mitre_deprecated obj = Some True"
  by (auto simp: lifecycle_flagged_def truthy_def split: option.splits)

text \<open>
  C2. When the knowledge-base file exists, \<^verbatim>\<open>load_mitre_data\<close> returns the objects of the
  corpus whose type is one of the six allowed ones and whose \<^verbatim>\<open>revoked\<close> and
  \<^verbatim>\<open>x_mitre_deprecated\<close> flags are both unset: an object of the corpus is in the output
  exactly when it meets the three conditions, and the output is a subsequence of the input,
  in input order.
\<close>

theorem load_mitre_data_filter:
  "fs path = Some data \<Longrightarrow>
   (\<exists>out. load_mitre_data fs path = Inr out \<and>
      out = filter (\<lambda>obj. type_allowed obj \<and> \<not> lifecycle_flagged obj) (corpus_objects data) \<and>
      (\<forall>obj \<in> set (corpus_objects data).
         obj \<in> set out \<longleftrightarrow>
           obj_type obj \<in> Some ` {''attack-pattern'', ''malware'', ''tool'', ''intrusion-set'',
                                 ''course-of-action'', ''campaign''} \<and>
           revoked obj \<noteq> Some True \<and> x_mitre_deprecated obj \<noteq> Some True) \<and>
      subseq out (corpus_objects data))"
  by (simp add: load_mitre_data_def filter_loop_eq type_allowed_iff lifecycle_flagged_iff)

theorem load_mitre_data_filter_witness:
  "example_fs MITRE_FILE_PATH = Some example_corpus \<and>
   load_mitre_data example_fs MITRE_FILE_PATH = Inr [technique_a, technique_b]"
proof -
  have h: "example_fs MITRE_FILE_PATH = Some example_corpus"
    by (simp add: example_fs_def)
  have "filter (\<lambda>obj. type_allowed obj \<and> \<not> lifecycle_flagged obj) (corpus_objects example_corpus)
          = [technique_a, technique_b]"
    by (simp add: corpus_objects_def example_corpus_def technique_a_def technique_b_def
        revoked_malware_def blank_obj_def type_allowed_def ALLOWED_TYPES_def
        lifecycle_flagged_def truthy_def)
  with load_mitre_data_filter [of example_fs MITRE_FILE_PATH example_corpus] h show ?thesis
    by auto
qed

section \<open>Audit counts\<close>

lemma audit_loop_eq:
  "audit_loop objs (rel, st, sr) =
     (rel @ filter (\<lambda>obj. type_allowed obj \<and> \<not> lifecycle_flagged obj) objs,
      st + length (filter (\<lambda>obj. \<not> type_allowed obj) objs),
      sr + length (filter (\<lambda>obj. type_allowed obj \<and> lifecycle_flagged obj) objs))"
  by (induction objs arbitrary: rel st sr) auto

lemma three_way_length:
  "length (filter (\<lambda>x. P x \<and> \<not> Q x) xs) + length (filter (\<lambda>x. \<not> P x) xs) +
     length (filter (\<lambda>x. P x \<and> Q x) xs) = length xs"
  by (induction xs) auto

text \<open>
  C3. The scan of the audit returns the objects the ingestion filter keeps, the number of
  objects whose type is not allowed, and the number of objects of an allowed type with a
  lifecycle flag set. The three classes exclude each other and their sizes add up to the
  number of objects of the corpus.
\<close>

theorem audit_counting:
  "audit_scan objs =
     (filter_loop objs [],
      length (filter (\<lambda>obj. \<not> type_allowed obj) objs),
      length (filter (\<lambda>obj. type_allowed obj \<and> lifecycle_flagged obj) objs)) \<and>
   length objs =
     length (filter_loop objs []) + length (filter (\<lambda>obj. \<not> type_allowed obj) objs) +
     length (filter (\<lambda>obj. type_allowed obj \<and> lifecycle_flagged obj) objs)"
  using three_way_length [of type_allowed lifecycle_flagged objs]
  by (simp add: audit_scan_def audit_loop_eq filter_loop_eq)

section \<open>Domain identifier\<close>

lemma extract_find:
  "extract_mitre_id refs =
     (case find (\<lambda>r. source_name r = Some ''mitre-attack'') refs of
        None \<Rightarrow> ''UNKNOWN''
      | Some r \<Rightarrow> (case external_id r of None \<Rightarrow> ''UNKNOWN'' | Some e \<Rightarrow> e))"
  by (induction refs) auto

text \<open>
  C10. \<^verbatim>\<open>extract_mitre_id\<close> looks at the first reference, in list order, whose
  \<^verbatim>\<open>source_name\<close> is \<^verbatim>\<open>mitre-attack\<close>, and at no later one: it returns the
  \<^verbatim>\<open>external_id\<close> of that reference, and \<^verbatim>\<open>UNKNOWN\<close> when that reference has none or
  when no reference matches. The pipeline replaces \<^verbatim>\<open>UNKNOWN\<close> by the native id of the
  object. So \<open>no_extid_obj\<close>, which carries two references of the authority, the second
  with an \<^verbatim>\<open>external_id\<close>, is filed under its native id.
\<close>

theorem extract_mitre_id_first_match:
  "extract_mitre_id refs =
     (case find (\<lambda>r. source_name r = Some ''mitre-attack'') refs of
        None \<Rightarrow> ''UNKNOWN''
      | Some r \<Rightarrow> (case external_id r of None \<Rightarrow> ''UNKNOWN'' | Some e \<Rightarrow> e)) \<and>
   domain_id obj =
     (if extract_mitre_id (get_refs obj) = ''UNKNOWN'' then obj_id obj
      else Some (extract_mitre_id (get_refs obj))) \<and>
   find (\<lambda>r. source_name r = Some ''mitre-attack'') (get_refs no_extid_obj) \<noteq> None \<and>
   domain_id no_extid_obj = obj_id no_extid_obj \<and>
   uniq_id [] no_extid_obj = Some ''tool--1''"
proof -
  have "domain_id obj =
     (if extract_mitre_id (get_refs obj) = ''UNKNOWN'' then obj_id obj
      else Some (extract_mitre_id (get_refs obj)))"
    by (simp add: domain_id_def Let_def)
  moreover have "find (\<lambda>r. source_name r = Some ''mitre-attack'') (get_refs no_extid_obj) \<noteq> None"
    by (simp add: get_refs_def no_extid_obj_def blank_obj_def)
  moreover have d: "domain_id no_extid_obj = Some ''tool--1''"
    by (simp add: domain_id_def get_refs_def no_extid_obj_def blank_obj_def)
  moreover have "obj_id no_extid_obj = Some ''tool--1''"
    by (simp add: no_extid_obj_def blank_obj_def)
  moreover have "uniq_id [] no_extid_obj = Some ''tool--1''"
    by (simp add: uniq_id_def d)
  ultimately show ?thesis
    using extract_find [of refs] by simp
qed

end
